theory Spec2Isabelle
  imports Main "HOL-Library.FSet"
begin

section \<open>Python values and string primitives\<close>

text \<open>
  A Python \<open>str\<close> is modelled as a \<open>string\<close> whose characters are the code points
  0 to 255; the primitives below follow CPython 3.11 on that range. A Python \<open>set\<close>
  of strings is a \<open>string fset\<close>, a \<open>dict\<close> keyed by strings a map, and an
  exception raised by a callee is the left injection of a sum.
\<close>

datatype exn = ValueError | TypeError

text \<open>
  The argument \<open>max_students\<close> of \<open>EnrollmentSystem.add_course\<close> is annotated
  \<open>int\<close>, and the method converts it with \<open>int(...)\<close> under a handler for
  \<open>ValueError\<close>. The values modelled are the integers, the strings, on which
  \<open>int\<close> raises \<open>ValueError\<close> when the text is no integer literal, and
  \<open>None\<close>, on which it raises \<open>TypeError\<close>.
\<close>

datatype pyval = PyInt int | PyStr string | PyNone

definition isspace :: "char \<Rightarrow> bool" where
  \<comment> \<open>\<open>str.isspace\<close> on one character: the characters that \<open>str.strip()\<close> removes.\<close>
  "isspace c \<longleftrightarrow> c \<in> set [CHR 0x09, CHR 0x0A, CHR 0x0B, CHR 0x0C, CHR 0x0D,
     CHR 0x1C, CHR 0x1D, CHR 0x1E, CHR 0x1F, CHR 0x20, CHR 0x85, CHR 0xA0]"

definition strip :: "string \<Rightarrow> string" where
  \<comment> \<open>\<open>s.strip()\<close>\<close>
  "strip s = rev (dropWhile isspace (rev (dropWhile isspace s)))"

fun split :: "char \<Rightarrow> string \<Rightarrow> string list" where
  \<comment> \<open>\<open>s.split(sep)\<close> for a separator of one character: never the empty list.\<close>
  "split sep [] = [[]]"
| "split sep (c # cs) =
     (if c = sep then [] # split sep cs
      else (case split sep cs of
              [] \<Rightarrow> [[c]]
            | w # ws \<Rightarrow> (c # w) # ws))"

definition int_space :: "char \<Rightarrow> bool" where
  \<comment> \<open>The blanks \<open>int(str)\<close> skips at both ends: ASCII white space, and the two
      non-ASCII spaces below 256, which CPython first rewrites to a blank.\<close>
  "int_space c \<longleftrightarrow> c \<in> set [CHR 0x09, CHR 0x0A, CHR 0x0B, CHR 0x0C, CHR 0x0D,
     CHR 0x20, CHR 0x85, CHR 0xA0]"

definition is_digit :: "char \<Rightarrow> bool" where
  "is_digit c \<longleftrightarrow> c \<in> set ''0123456789''"

definition digit_value :: "char \<Rightarrow> int" where
  "digit_value c = of_char c - 48"

fun digit_groups :: "string \<Rightarrow> bool" where
  \<comment> \<open>A digit, then digits each preceded by at most one underscore.\<close>
  "digit_groups [] = False"
| "digit_groups [c] = is_digit c"
| "digit_groups (c # d # cs) =
     (is_digit c \<and> (if d = CHR ''_'' then digit_groups cs else digit_groups (d # cs)))"

definition max_str_digits :: nat where
  \<comment> \<open>\<open>sys.get_int_max_str_digits()\<close>, CPython's default.\<close>
  "max_str_digits = 4300"

definition int_of_digits :: "string \<Rightarrow> exn + int" where
  \<comment> \<open>The unsigned part of a base 10 literal.\<close>
  "int_of_digits s =
     (if \<not> digit_groups s then Inl ValueError
      else let ds = filter is_digit s in
        if length ds > max_str_digits then Inl ValueError
        else Inr (foldl (\<lambda>acc c. acc * 10 + digit_value c) 0 ds))"

definition int_of_str :: "string \<Rightarrow> exn + int" where
  \<comment> \<open>\<open>int(s)\<close> for a string: blanks, an optional sign, the digits, blanks.\<close>
  "int_of_str s =
     (case rev (dropWhile int_space (rev (dropWhile int_space s))) of
        [] \<Rightarrow> Inl ValueError
      | c # cs \<Rightarrow>
          if c = CHR ''-'' then
            (case int_of_digits cs of Inl e \<Rightarrow> Inl e | Inr n \<Rightarrow> Inr (- n))
          else if c = CHR ''+'' then int_of_digits cs
          else int_of_digits (c # cs))"

fun py_int :: "pyval \<Rightarrow> exn + int" where
  \<comment> \<open>\<open>int(v)\<close>\<close>
  "py_int (PyInt i) = Inr i"
| "py_int (PyStr s) = int_of_str s"
| "py_int PyNone = Inl TypeError"

section \<open>Course (course.py)\<close>

record course =
  course_id :: string
  name :: string
  instructor :: string
  enrolled_students :: "string fset"
  max_students :: int
  days :: string
  time :: string
  location :: string

definition Course :: "string \<Rightarrow> string \<Rightarrow> string \<Rightarrow> int \<Rightarrow> string \<Rightarrow> string \<Rightarrow> string \<Rightarrow> course" where
  \<comment> \<open>\<open>Course.__init__\<close>; the callers that leave out \<open>days\<close>, \<open>time\<close> and
      \<open>location\<close> get the defaults \<open>""\<close>.\<close>
  "Course cid nm instr maxs ds tm loc =
     \<lparr>course_id = cid, name = nm, instructor = instr, enrolled_students = {||},
      max_students = maxs, days = ds, time = tm, location = loc\<rparr>"

definition add_student :: "course \<Rightarrow> string \<Rightarrow> bool \<times> course" where
  \<comment> \<open>Returns the flag and the course after the call.\<close>
  "add_student self sid =
     (if int (fcard (enrolled_students self)) \<ge> max_students self then (False, self)
      else (True, self\<lparr>enrolled_students := finsert sid (enrolled_students self)\<rparr>))"

definition remove_student :: "course \<Rightarrow> string \<Rightarrow> course" where
  "remove_student self sid =
     self\<lparr>enrolled_students := enrolled_students self |-| {|sid|}\<rparr>"

definition is_full :: "course \<Rightarrow> bool" where
  "is_full self \<longleftrightarrow> int (fcard (enrolled_students self)) \<ge> max_students self"

definition time_to_minutes :: "string \<Rightarrow> exn + int" where
  \<comment> \<open>\<open>hour, minute = map(int, time_str.split(':'))\<close>: unpacking anything but two
      items raises \<open>ValueError\<close>, as a failing \<open>int\<close> does.\<close>
  "time_to_minutes time_str =
     (case split CHR '':'' time_str of
        [h, m] \<Rightarrow>
          (case int_of_str h of
             Inl e \<Rightarrow> Inl e
           | Inr hour \<Rightarrow>
               (case int_of_str m of
                  Inl e \<Rightarrow> Inl e
                | Inr minute \<Rightarrow> Inr (hour * 60 + minute)))
      | _ \<Rightarrow> Inl ValueError)"

definition parse_time_range :: "string \<Rightarrow> exn + (int \<times> int)" where
  "parse_time_range time_range =
     (case split CHR ''-'' time_range of
        [start_str, end_str] \<Rightarrow>
          (case time_to_minutes (strip start_str) of
             Inl e \<Rightarrow> Inl e
           | Inr start_minutes \<Rightarrow>
               (case time_to_minutes (strip end_str) of
                  Inl e \<Rightarrow> Inl e
                | Inr end_minutes \<Rightarrow> Inr (start_minutes, end_minutes)))
      | _ \<Rightarrow> Inl ValueError)"

definition times_overlap :: "string \<Rightarrow> string \<Rightarrow> bool" where
  \<comment> \<open>The body runs under \<open>try\<close> with a bare \<open>except\<close> that returns \<open>False\<close>.\<close>
  "times_overlap time1 time2 =
     (case parse_time_range time1 of
        Inl e \<Rightarrow> False
      | Inr (start1, end1) \<Rightarrow>
          (case parse_time_range time2 of
             Inl e \<Rightarrow> False
           | Inr (start2, end2) \<Rightarrow> start1 < end2 \<and> start2 < end1))"

definition has_common_days :: "course \<Rightarrow> string \<Rightarrow> bool" where
  "has_common_days self other_days \<longleftrightarrow> card (set (days self) \<inter> set other_days) > 0"

definition has_schedule_conflict :: "course \<Rightarrow> course \<Rightarrow> bool" where
  "has_schedule_conflict self other_course =
     (if days self = [] \<or> time self = [] \<or> days other_course = [] \<or> time other_course = []
      then False
      else if \<not> has_common_days self (days other_course) then False
      else times_overlap (time self) (time other_course))"

section \<open>Student (student.py)\<close>

record student =
  student_id :: string
  name :: string
  registered_courses :: "string fset"

definition Student :: "string \<Rightarrow> string \<Rightarrow> student" where
  \<comment> \<open>\<open>Student.__init__\<close>\<close>
  "Student sid nm = \<lparr>student_id = sid, name = nm, registered_courses = {||}\<rparr>"

definition add_course_student :: "student \<Rightarrow> string \<Rightarrow> student" where
  \<comment> \<open>\<open>Student.add_course\<close>\<close>
  "add_course_student self cid =
     self\<lparr>registered_courses := finsert cid (registered_courses self)\<rparr>"

definition remove_course_student :: "student \<Rightarrow> string \<Rightarrow> student" where
  \<comment> \<open>\<open>Student.remove_course\<close>\<close>
  "remove_course_student self cid =
     self\<lparr>registered_courses := registered_courses self |-| {|cid|}\<rparr>"

section \<open>EnrollmentSystem (enrollment\_system.py)\<close>

text \<open>
  The registry holds the two dictionaries. Each \<open>Student\<close> and \<open>Course\<close> object is
  created by the registry and stored under one key only, so mutating the object in place
  is an update of the map at that key. \<open>save_data\<close> writes files, catches its own
  errors and leaves the dictionaries alone: it does not appear in the model.

  Every operation returns the pair of the success flag and the message, and the registry
  after the call. The messages are formatted strings in the source; each constructor
  below stands for one of them and carries the values the text interpolates.
\<close>

record enrollment_system =
  students :: "string \<rightharpoonup> student"
  courses :: "string \<rightharpoonup> course"

datatype message =
    EmptyStudentFields
      \<comment> \<open>Student ID and name cannot be empty.\<close>
  | StudentExists string
      \<comment> \<open>Student ID .. already exists.\<close>
  | StudentRegistered string string
      \<comment> \<open>Student .. registered successfully with ID ..\<close>
  | EmptyCourseFields
      \<comment> \<open>Course ID, name, and instructor cannot be empty.\<close>
  | CourseExists string
      \<comment> \<open>Course ID .. already exists.\<close>
  | MaxNotPositive
      \<comment> \<open>Maximum students must be a positive number.\<close>
  | MaxNotValid
      \<comment> \<open>Maximum students must be a valid number.\<close>
  | CourseAdded string string
      \<comment> \<open>Course .. added successfully with ID ..\<close>
  | StudentNotFound string
      \<comment> \<open>Student ID .. not found.\<close>
  | CourseNotFound string
      \<comment> \<open>Course ID .. not found.\<close>
  | AlreadyEnrolled string
      \<comment> \<open>Student is already enrolled in ..\<close>
  | CourseFull string
      \<comment> \<open>Course .. is full. No seats available.\<close>
  | ScheduleConflict string string string
      \<comment> \<open>SCHEDULE CONFLICT: name (days time) of the target course conflicts with ..
          The text goes on with the first conflicting course the loop meets; a Python
          set is scanned in no specified order, and the constructor keeps the part of the
          text that does not depend on it.\<close>
  | Enrolled string string
      \<comment> \<open>Student .. successfully enrolled in ..\<close>
  | NotEnrolled string
      \<comment> \<open>Student is not enrolled in ..\<close>
  | Dropped string string
      \<comment> \<open>Student .. successfully dropped ..\<close>

type_synonym result = "(bool \<times> message) \<times> enrollment_system"

definition empty_system :: enrollment_system where
  \<comment> \<open>The registry after \<open>__init__\<close> when there is no file to load.\<close>
  "empty_system = \<lparr>students = Map.empty, courses = Map.empty\<rparr>"

definition register_student :: "enrollment_system \<Rightarrow> string \<Rightarrow> string \<Rightarrow> result" where
  "register_student self sid nm =
     (if sid = [] \<or> nm = [] then ((False, EmptyStudentFields), self)
      else if sid \<in> dom (students self) then ((False, StudentExists sid), self)
      else ((True, StudentRegistered nm sid),
            self\<lparr>students := (students self)(sid \<mapsto> Student sid nm)\<rparr>))"

text \<open>
  \<open>add_course\<close> catches \<open>ValueError\<close> only: any other exception of
  \<open>int(max_students)\<close> leaves the method. Its outcome is the returned pair or the
  exception, together with the registry after the call, which an exception leaves as it
  was.
\<close>

definition add_course ::
  "enrollment_system \<Rightarrow> string \<Rightarrow> string \<Rightarrow> string \<Rightarrow> pyval
     \<Rightarrow> (exn + bool \<times> message) \<times> enrollment_system" where
  "add_course self cid nm instr maxv =
     (if cid = [] \<or> nm = [] \<or> instr = [] then (Inr (False, EmptyCourseFields), self)
      else if cid \<in> dom (courses self) then (Inr (False, CourseExists cid), self)
      else (case py_int maxv of
              Inl ValueError \<Rightarrow> (Inr (False, MaxNotValid), self)
            | Inl e \<Rightarrow> (Inl e, self)
            | Inr maxs \<Rightarrow>
                if maxs \<le> 0 then (Inr (False, MaxNotPositive), self)
                else (Inr (True, CourseAdded nm cid),
                      self\<lparr>courses := (courses self)(cid \<mapsto> Course cid nm instr maxs [] [] [])\<rparr>)))"

definition conflicts_with_enrolled :: "enrollment_system \<Rightarrow> student \<Rightarrow> course \<Rightarrow> bool" where
  \<comment> \<open>The loop of \<open>enroll_student\<close> over \<open>student.registered_courses\<close>: it returns
      at the first registered id that is a known course in conflict with the target.\<close>
  "conflicts_with_enrolled self st crs \<longleftrightarrow>
     fBex (registered_courses st) (\<lambda>enrolled_course_id.
       case courses self enrolled_course_id of
         None \<Rightarrow> False
       | Some enrolled_course \<Rightarrow> has_schedule_conflict crs enrolled_course)"

definition enroll_student :: "enrollment_system \<Rightarrow> string \<Rightarrow> string \<Rightarrow> result" where
  "enroll_student self sid cid =
     (case students self sid of
        None \<Rightarrow> ((False, StudentNotFound sid), self)
      | Some st \<Rightarrow>
          (case courses self cid of
             None \<Rightarrow> ((False, CourseNotFound cid), self)
           | Some crs \<Rightarrow>
               if cid |\<in>| registered_courses st
                 then ((False, AlreadyEnrolled (course.name crs)), self)
               else if is_full crs
                 then ((False, CourseFull (course.name crs)), self)
               else if conflicts_with_enrolled self st crs
                 then ((False, ScheduleConflict (course.name crs) (days crs) (time crs)), self)
               else ((True, Enrolled (student.name st) (course.name crs)),
                     self\<lparr>students := (students self)(sid \<mapsto> add_course_student st cid),
                          courses := (courses self)(cid \<mapsto> snd (add_student crs sid))\<rparr>)))"

definition drop_course :: "enrollment_system \<Rightarrow> string \<Rightarrow> string \<Rightarrow> result" where
  "drop_course self sid cid =
     (case students self sid of
        None \<Rightarrow> ((False, StudentNotFound sid), self)
      | Some st \<Rightarrow>
          (case courses self cid of
             None \<Rightarrow> ((False, CourseNotFound cid), self)
           | Some crs \<Rightarrow>
               if cid |\<notin>| registered_courses st
                 then ((False, NotEnrolled (course.name crs)), self)
               else ((True, Dropped (student.name st) (course.name crs)),
                     self\<lparr>students := (students self)(sid \<mapsto> remove_course_student st cid),
                          courses := (courses self)(cid \<mapsto> remove_student crs sid)\<rparr>)))"

text \<open>
  The registries the four operations can build from the empty one, whatever their
  arguments and whether the call succeeds or fails.
\<close>

inductive reachable :: "enrollment_system \<Rightarrow> bool" where
  init: "reachable empty_system"
| register: "reachable s \<Longrightarrow> reachable (snd (register_student s sid nm))"
| add: "reachable s \<Longrightarrow> reachable (snd (add_course s cid nm instr maxv))"
| enroll: "reachable s \<Longrightarrow> reachable (snd (enroll_student s sid cid))"
| drop: "reachable s \<Longrightarrow> reachable (snd (drop_course s sid cid))"

section \<open>Invariant and example registries\<close>

text \<open>
  The invariant of the registry: every object is stored under its own id, every id in a
  membership set is a key of the other dictionary, no course holds more students than
  its capacity, and the two membership sets mirror each other.
\<close>

definition registry_inv :: "enrollment_system \<Rightarrow> bool" where
  "registry_inv s \<longleftrightarrow>
     (\<forall>k st. students s k = Some st \<longrightarrow>
        student_id st = k \<and> (\<forall>cid. cid |\<in>| registered_courses st \<longrightarrow> courses s cid \<noteq> None))
   \<and> (\<forall>k c. courses s k = Some c \<longrightarrow>
        course_id c = k \<and> int (fcard (enrolled_students c)) \<le> max_students c
        \<and> (\<forall>sid. sid |\<in>| enrolled_students c \<longrightarrow> students s sid \<noteq> None))
   \<and> (\<forall>k st k' c. students s k = Some st \<longrightarrow> courses s k' = Some c \<longrightarrow>
        (k' |\<in>| registered_courses st \<longleftrightarrow> k |\<in>| enrolled_students c))"

text \<open>
  A registry built by the operations: two students and one course with a single seat.
\<close>

definition demo_registry :: enrollment_system where
  "demo_registry =
     snd (add_course
            (snd (register_student (snd (register_student empty_system ''S1'' ''Ann'')) ''S2'' ''Bob''))
            ''CS101'' ''Programming'' ''Smith'' (PyInt 1))"

text \<open>
  A registry as \<open>load_data\<close> builds it from the CSV files, where courses carry a
  schedule: Ann holds the only seat of CS101, and MATH201 meets while CS101 does.
\<close>

definition ann :: student where
  "ann = \<lparr>student_id = ''S1'', name = ''Ann'', registered_courses = {|''CS101''|}\<rparr>"

definition cs101 :: course where
  "cs101 = \<lparr>course_id = ''CS101'', name = ''Programming'', instructor = ''Smith'',
            enrolled_students = {|''S1''|}, max_students = 1,
            days = ''MWF'', time = ''9:00-10:15'', location = ''E201''\<rparr>"

definition math201 :: course where
  "math201 = \<lparr>course_id = ''MATH201'', name = ''Calculus'', instructor = ''Williams'',
            enrolled_students = {||}, max_students = 30,
            days = ''MW'', time = ''10:00-11:00'', location = ''E202''\<rparr>"

definition eng101 :: course where
  "eng101 = \<lparr>course_id = ''ENG101'', name = ''Composition'', instructor = ''Brown'',
            enrolled_students = {|''S1''|}, max_students = 25,
            days = ''TTh'', time = ''half past one'', location = ''H12''\<rparr>"

definition loaded :: enrollment_system where
  "loaded = \<lparr>students = [''S1'' \<mapsto> ann, ''S2'' \<mapsto> Student ''S2'' ''Bob''],
             courses = [''CS101'' \<mapsto> cs101, ''MATH201'' \<mapsto> math201]\<rparr>"

lemmas parse_defs = parse_time_range_def time_to_minutes_def strip_def isspace_def
  int_of_str_def int_space_def int_of_digits_def is_digit_def digit_value_def max_str_digits_def

section \<open>The registry invariant\<close>

lemma inv_student_id: "registry_inv s \<Longrightarrow> students s k = Some st \<Longrightarrow> student_id st = k"
  by (simp add: registry_inv_def)

lemma inv_registered_known:
  "registry_inv s \<Longrightarrow> students s k = Some st \<Longrightarrow> cid |\<in>| registered_courses st \<Longrightarrow> courses s cid \<noteq> None"
  unfolding registry_inv_def by blast

lemma inv_course_id: "registry_inv s \<Longrightarrow> courses s k = Some c \<Longrightarrow> course_id c = k"
  by (simp add: registry_inv_def)

lemma inv_capacity:
  "registry_inv s \<Longrightarrow> courses s k = Some c \<Longrightarrow> int (fcard (enrolled_students c)) \<le> max_students c"
  by (simp add: registry_inv_def)

lemma inv_enrolled_known:
  "registry_inv s \<Longrightarrow> courses s k = Some c \<Longrightarrow> sid |\<in>| enrolled_students c \<Longrightarrow> students s sid \<noteq> None"
  unfolding registry_inv_def by blast

lemma inv_link:
  "registry_inv s \<Longrightarrow> students s k = Some st \<Longrightarrow> courses s k' = Some c \<Longrightarrow>
     (k' |\<in>| registered_courses st \<longleftrightarrow> k |\<in>| enrolled_students c)"
  unfolding registry_inv_def by blast

lemma inv_empty: "registry_inv empty_system"
  by (simp add: registry_inv_def empty_system_def)

lemma inv_register:
  assumes inv: "registry_inv s"
  shows "registry_inv (snd (register_student s sid nm))"
proof (cases "fst (fst (register_student s sid nm))")
  case False
  then have "snd (register_student s sid nm) = s"
    by (auto simp: register_student_def split: if_splits)
  with inv show ?thesis by simp
next
  case True
  then have fresh: "students s sid = None"
    and post: "snd (register_student s sid nm) = s\<lparr>students := (students s)(sid \<mapsto> Student sid nm)\<rparr>"
    by (auto simp: register_student_def split: if_splits)
  have no_member: "sid |\<notin>| enrolled_students c" if "courses s k = Some c" for k c
    using inv_enrolled_known [OF inv that] fresh by blast
  show ?thesis
    unfolding post registry_inv_def
  proof (intro conjI allI impI)
    fix k st assume "students (s\<lparr>students := (students s)(sid \<mapsto> Student sid nm)\<rparr>) k = Some st"
    then show "student_id st = k"
      using inv_student_id [OF inv] by (auto simp: Student_def split: if_splits)
  next
    fix k st cid
    assume "students (s\<lparr>students := (students s)(sid \<mapsto> Student sid nm)\<rparr>) k = Some st"
      and "cid |\<in>| registered_courses st"
    then show "courses (s\<lparr>students := (students s)(sid \<mapsto> Student sid nm)\<rparr>) cid \<noteq> None"
      using inv_registered_known [OF inv] by (auto simp: Student_def split: if_splits)
  next
    fix k c assume "courses (s\<lparr>students := (students s)(sid \<mapsto> Student sid nm)\<rparr>) k = Some c"
    then show "course_id c = k" using inv_course_id [OF inv] by simp
  next
    fix k c assume "courses (s\<lparr>students := (students s)(sid \<mapsto> Student sid nm)\<rparr>) k = Some c"
    then show "int (fcard (enrolled_students c)) \<le> max_students c"
      using inv_capacity [OF inv] by simp
  next
    fix k c x
    assume "courses (s\<lparr>students := (students s)(sid \<mapsto> Student sid nm)\<rparr>) k = Some c"
      and "x |\<in>| enrolled_students c"
    then show "students (s\<lparr>students := (students s)(sid \<mapsto> Student sid nm)\<rparr>) x \<noteq> None"
      using inv_enrolled_known [OF inv] by auto
  next
    fix k st k' c
    assume "students (s\<lparr>students := (students s)(sid \<mapsto> Student sid nm)\<rparr>) k = Some st"
      and "courses (s\<lparr>students := (students s)(sid \<mapsto> Student sid nm)\<rparr>) k' = Some c"
    then show "(k' |\<in>| registered_courses st) = (k |\<in>| enrolled_students c)"
      using inv_link [OF inv] no_member by (auto simp: Student_def split: if_splits)
  qed
qed


lemma add_course_changes:
  assumes changed: "snd (add_course s cid nm instr maxv) \<noteq> s"
  obtains maxs where "py_int maxv = Inr maxs" and "0 < maxs" and "courses s cid = None"
    and "add_course s cid nm instr maxv =
           (Inr (True, CourseAdded nm cid),
            s\<lparr>courses := (courses s)(cid \<mapsto> Course cid nm instr maxs [] [] [])\<rparr>)"
proof (cases "py_int maxv")
  case (Inl e)
  with changed have False
    by (cases e) (simp_all add: add_course_def split: if_splits)
  then show ?thesis ..
next
  case (Inr maxs)
  from changed have fields: "\<not> (cid = [] \<or> nm = [] \<or> instr = [])" and fresh: "cid \<notin> dom (courses s)"
    by (auto simp: add_course_def split: if_splits)
  from changed Inr fields fresh have pos: "0 < maxs"
    by (auto simp: add_course_def split: if_splits)
  show ?thesis
  proof (rule that [OF Inr pos])
    show "courses s cid = None" using fresh by auto
    show "add_course s cid nm instr maxv =
           (Inr (True, CourseAdded nm cid),
            s\<lparr>courses := (courses s)(cid \<mapsto> Course cid nm instr maxs [] [] [])\<rparr>)"
      using Inr fields fresh pos by (simp add: add_course_def)
  qed
qed

lemma inv_add:
  assumes inv: "registry_inv s"
  shows "registry_inv (snd (add_course s cid nm instr maxv))"
proof (cases "snd (add_course s cid nm instr maxv) = s")
  case True
  with inv show ?thesis by simp
next
  case False
  then obtain maxs where fresh: "courses s cid = None" and pos: "0 < maxs"
    and post: "snd (add_course s cid nm instr maxv) =
                 s\<lparr>courses := (courses s)(cid \<mapsto> Course cid nm instr maxs [] [] [])\<rparr>"
    by (auto elim!: add_course_changes)
  let ?s' = "s\<lparr>courses := (courses s)(cid \<mapsto> Course cid nm instr maxs [] [] [])\<rparr>"
  have no_member: "cid |\<notin>| registered_courses st" if "students s k = Some st" for k st
    using inv_registered_known [OF inv that] fresh by blast
  show ?thesis
    unfolding post registry_inv_def
  proof (intro conjI allI impI)
    fix k st assume "students ?s' k = Some st"
    then show "student_id st = k" using inv_student_id [OF inv] by simp
  next
    fix k st x
    assume "students ?s' k = Some st" and "x |\<in>| registered_courses st"
    then show "courses ?s' x \<noteq> None"
      using inv_registered_known [OF inv] by auto
  next
    fix k c assume "courses ?s' k = Some c"
    then show "course_id c = k"
      using inv_course_id [OF inv] by (auto simp: Course_def split: if_splits)
  next
    fix k c assume "courses ?s' k = Some c"
    then show "int (fcard (enrolled_students c)) \<le> max_students c"
      using inv_capacity [OF inv] pos by (auto simp: Course_def fcard_fempty split: if_splits)
  next
    fix k c x
    assume "courses ?s' k = Some c" and "x |\<in>| enrolled_students c"
    then show "students ?s' x \<noteq> None"
      using inv_enrolled_known [OF inv] by (auto simp: Course_def split: if_splits)
  next
    fix k st k' c
    assume "students ?s' k = Some st" and "courses ?s' k' = Some c"
    then show "(k' |\<in>| registered_courses st) = (k |\<in>| enrolled_students c)"
      using inv_link [OF inv] no_member by (auto simp: Course_def split: if_splits)
  qed
qed

lemma enroll_student_success:
  assumes "fst (fst (enroll_student s sid cid))"
  obtains st crs where "students s sid = Some st" and "courses s cid = Some crs"
    and "cid |\<notin>| registered_courses st" and "\<not> is_full crs"
    and "\<not> conflicts_with_enrolled s st crs"
    and "enroll_student s sid cid =
           ((True, Enrolled (student.name st) (course.name crs)),
            s\<lparr>students := (students s)(sid \<mapsto> st\<lparr>registered_courses := finsert cid (registered_courses st)\<rparr>),
              courses := (courses s)(cid \<mapsto> crs\<lparr>enrolled_students := finsert sid (enrolled_students crs)\<rparr>)\<rparr>)"
  using assms
  by (auto simp: enroll_student_def add_course_student_def add_student_def is_full_def
           split: option.splits if_splits)

lemma enroll_student_failure:
  "\<not> fst (fst (enroll_student s sid cid)) \<Longrightarrow> snd (enroll_student s sid cid) = s"
  by (auto simp: enroll_student_def split: option.splits if_splits)

lemma inv_enroll:
  assumes inv: "registry_inv s"
  shows "registry_inv (snd (enroll_student s sid cid))"
proof (cases "fst (fst (enroll_student s sid cid))")
  case False
  with inv show ?thesis by (simp add: enroll_student_failure)
next
  case True
  then obtain st crs where st: "students s sid = Some st" and crs: "courses s cid = Some crs"
    and room: "\<not> is_full crs"
    and post: "snd (enroll_student s sid cid) =
            s\<lparr>students := (students s)(sid \<mapsto> st\<lparr>registered_courses := finsert cid (registered_courses st)\<rparr>),
              courses := (courses s)(cid \<mapsto> crs\<lparr>enrolled_students := finsert sid (enrolled_students crs)\<rparr>)\<rparr>"
    by (auto elim!: enroll_student_success)
  let ?s' = "s\<lparr>students := (students s)(sid \<mapsto> st\<lparr>registered_courses := finsert cid (registered_courses st)\<rparr>),
              courses := (courses s)(cid \<mapsto> crs\<lparr>enrolled_students := finsert sid (enrolled_students crs)\<rparr>)\<rparr>"
  show ?thesis
    unfolding post registry_inv_def
  proof (intro conjI allI impI)
    fix k st' assume "students ?s' k = Some st'"
    then show "student_id st' = k"
      using inv_student_id [OF inv] st by (auto split: if_splits)
  next
    fix k st' x
    assume "students ?s' k = Some st'" and "x |\<in>| registered_courses st'"
    then show "courses ?s' x \<noteq> None"
      using inv_registered_known [OF inv] st by (auto split: if_splits)
  next
    fix k c assume "courses ?s' k = Some c"
    then show "course_id c = k"
      using inv_course_id [OF inv] crs by (auto split: if_splits)
  next
    fix k c assume "courses ?s' k = Some c"
    then show "int (fcard (enrolled_students c)) \<le> max_students c"
      using inv_capacity [OF inv] room
      by (auto simp: is_full_def fcard_finsert_if split: if_splits)
  next
    fix k c x
    assume "courses ?s' k = Some c" and "x |\<in>| enrolled_students c"
    then show "students ?s' x \<noteq> None"
      using inv_enrolled_known [OF inv] crs by (auto split: if_splits)
  next
    fix k st' k' c
    assume "students ?s' k = Some st'" and "courses ?s' k' = Some c"
    then show "(k' |\<in>| registered_courses st') = (k |\<in>| enrolled_students c)"
      using inv_link [OF inv] st crs by (auto split: if_splits)
  qed
qed

lemma drop_course_success:
  assumes "fst (fst (drop_course s sid cid))"
  obtains st crs where "students s sid = Some st" and "courses s cid = Some crs"
    and "cid |\<in>| registered_courses st"
    and "drop_course s sid cid =
           ((True, Dropped (student.name st) (course.name crs)),
            s\<lparr>students := (students s)(sid \<mapsto> st\<lparr>registered_courses := registered_courses st |-| {|cid|}\<rparr>),
              courses := (courses s)(cid \<mapsto> crs\<lparr>enrolled_students := enrolled_students crs |-| {|sid|}\<rparr>)\<rparr>)"
  using assms
  by (auto simp: drop_course_def remove_course_student_def remove_student_def
           split: option.splits if_splits)

lemma drop_course_failure:
  "\<not> fst (fst (drop_course s sid cid)) \<Longrightarrow> snd (drop_course s sid cid) = s"
  by (auto simp: drop_course_def split: option.splits if_splits)

lemma inv_drop:
  assumes inv: "registry_inv s"
  shows "registry_inv (snd (drop_course s sid cid))"
proof (cases "fst (fst (drop_course s sid cid))")
  case False
  with inv show ?thesis by (simp add: drop_course_failure)
next
  case True
  then obtain st crs where st: "students s sid = Some st" and crs: "courses s cid = Some crs"
    and post: "snd (drop_course s sid cid) =
            s\<lparr>students := (students s)(sid \<mapsto> st\<lparr>registered_courses := registered_courses st |-| {|cid|}\<rparr>),
              courses := (courses s)(cid \<mapsto> crs\<lparr>enrolled_students := enrolled_students crs |-| {|sid|}\<rparr>)\<rparr>"
    by (auto elim!: drop_course_success)
  let ?s' = "s\<lparr>students := (students s)(sid \<mapsto> st\<lparr>registered_courses := registered_courses st |-| {|cid|}\<rparr>),
              courses := (courses s)(cid \<mapsto> crs\<lparr>enrolled_students := enrolled_students crs |-| {|sid|}\<rparr>)\<rparr>"
  show ?thesis
    unfolding post registry_inv_def
  proof (intro conjI allI impI)
    fix k st' assume "students ?s' k = Some st'"
    then show "student_id st' = k"
      using inv_student_id [OF inv] st by (auto split: if_splits)
  next
    fix k st' x
    assume "students ?s' k = Some st'" and "x |\<in>| registered_courses st'"
    then show "courses ?s' x \<noteq> None"
      using inv_registered_known [OF inv] st by (auto split: if_splits)
  next
    fix k c assume "courses ?s' k = Some c"
    then show "course_id c = k"
      using inv_course_id [OF inv] crs by (auto split: if_splits)
  next
    fix k c assume c: "courses ?s' k = Some c"
    have "int (fcard (enrolled_students crs |-| {|sid|})) \<le> int (fcard (enrolled_students crs))"
      by (simp add: fcard_fminus1_le)
    with c show "int (fcard (enrolled_students c)) \<le> max_students c"
      using inv_capacity [OF inv] inv_capacity [OF inv crs]
      by (auto split: if_splits)
  next
    fix k c x
    assume "courses ?s' k = Some c" and "x |\<in>| enrolled_students c"
    then show "students ?s' x \<noteq> None"
      using inv_enrolled_known [OF inv] crs by (auto split: if_splits)
  next
    fix k st' k' c
    assume "students ?s' k = Some st'" and "courses ?s' k' = Some c"
    then show "(k' |\<in>| registered_courses st') = (k |\<in>| enrolled_students c)"
      using inv_link [OF inv] st crs by (auto split: if_splits)
  qed
qed

lemma reachable_inv: "reachable s \<Longrightarrow> registry_inv s"
  by (induction rule: reachable.induct)
     (simp_all add: inv_empty inv_register inv_add inv_enroll inv_drop)

lemma reachable_after:
  assumes "reachable s"
    and "s' = s \<or> s' = snd (register_student s sid nm)
       \<or> s' = snd (add_course s cid cnm instr maxv)
       \<or> s' = snd (enroll_student s sid cid) \<or> s' = snd (drop_course s sid cid)"
  shows "reachable s'"
  using assms by (auto intro: reachable.intros)

lemma demo_registry_eq:
  "demo_registry =
     \<lparr>students = [''S1'' \<mapsto> \<lparr>student_id = ''S1'', name = ''Ann'', registered_courses = {||}\<rparr>,
                  ''S2'' \<mapsto> \<lparr>student_id = ''S2'', name = ''Bob'', registered_courses = {||}\<rparr>],
      courses = [''CS101'' \<mapsto> \<lparr>course_id = ''CS101'', name = ''Programming'', instructor = ''Smith'',
                               enrolled_students = {||}, max_students = 1,
                               days = [], time = [], location = []\<rparr>]\<rparr>"
  by (simp add: demo_registry_def empty_system_def register_student_def add_course_def
        Student_def Course_def)

lemma demo_registry_reachable: "reachable demo_registry"
  unfolding demo_registry_def by (intro reachable.intros)

lemma demo_enrolled_eq:
  "enroll_student demo_registry ''S1'' ''CS101'' =
     ((True, Enrolled ''Ann'' ''Programming''),
     \<lparr>students = [''S1'' \<mapsto> \<lparr>student_id = ''S1'', name = ''Ann'', registered_courses = {|''CS101''|}\<rparr>,
                  ''S2'' \<mapsto> \<lparr>student_id = ''S2'', name = ''Bob'', registered_courses = {||}\<rparr>],
      courses = [''CS101'' \<mapsto> \<lparr>course_id = ''CS101'', name = ''Programming'', instructor = ''Smith'',
                               enrolled_students = {|''S1''|}, max_students = 1,
                               days = [], time = [], location = []\<rparr>]\<rparr>)"
  by (simp add: demo_registry_eq enroll_student_def is_full_def conflicts_with_enrolled_def
        add_course_student_def add_student_def fcard_fempty fun_upd_twist)

lemma demo_step:
  "snd (enroll_student demo_registry ''S1'' ''CS101'') = demo_registry
   \<or> snd (enroll_student demo_registry ''S1'' ''CS101'') = snd (register_student demo_registry ''S1'' ''Ann'')
   \<or> snd (enroll_student demo_registry ''S1'' ''CS101'')
        = snd (add_course demo_registry ''CS101'' ''Programming'' ''Smith'' (PyInt 1))
   \<or> snd (enroll_student demo_registry ''S1'' ''CS101'') = snd (enroll_student demo_registry ''S1'' ''CS101'')
   \<or> snd (enroll_student demo_registry ''S1'' ''CS101'') = snd (drop_course demo_registry ''S1'' ''CS101'')"
  by simp

section \<open>Invariants of the reachable registries\<close>

text \<open>
  Claim C1 (bidirectional consistency). In every registry reachable from the empty one by
  \<open>register_student\<close>, \<open>add_course\<close>, \<open>enroll_student\<close> and \<open>drop_course\<close>, and
  in the registry any one of these operations leaves behind, each student \<open>st\<close> and
  course \<open>c\<close> it contains satisfy: the id of \<open>c\<close> is among the registered courses of
  \<open>st\<close> exactly when the id of \<open>st\<close> is among the enrolled students of \<open>c\<close>. An
  operation therefore changes both sides together or neither.
\<close>

theorem bidirectional_consistency:
  assumes "reachable s"
    and "s' = s \<or> s' = snd (register_student s sid nm)
       \<or> s' = snd (add_course s cid cnm instr maxv)
       \<or> s' = snd (enroll_student s sid cid) \<or> s' = snd (drop_course s sid cid)"
    and "students s' k = Some st" and "courses s' k' = Some c"
  shows "course_id c |\<in>| registered_courses st \<longleftrightarrow> student_id st |\<in>| enrolled_students c"
proof -
  have inv: "registry_inv s'"
    using reachable_after [OF assms(1,2)] by (rule reachable_inv)
  have "student_id st = k" and "course_id c = k'"
    using inv assms(3,4) by (auto dest: inv_student_id inv_course_id)
  then show ?thesis
    using inv_link [OF inv assms(3,4)] by simp
qed

theorem bidirectional_consistency_witness:
  "reachable demo_registry
   \<and> students (snd (enroll_student demo_registry ''S1'' ''CS101'')) ''S1''
       = Some \<lparr>student_id = ''S1'', name = ''Ann'', registered_courses = {|''CS101''|}\<rparr>
   \<and> courses (snd (enroll_student demo_registry ''S1'' ''CS101'')) ''CS101''
       = Some \<lparr>course_id = ''CS101'', name = ''Programming'', instructor = ''Smith'',
               enrolled_students = {|''S1''|}, max_students = 1,
               days = [], time = [], location = []\<rparr>
   \<and> (''CS101'' |\<in>| {|''CS101''|} \<longleftrightarrow> ''S1'' |\<in>| {|''S1''|})"
proof -
  let ?s' = "snd (enroll_student demo_registry ''S1'' ''CS101'')"
  have st: "students ?s' ''S1''
       = Some \<lparr>student_id = ''S1'', name = ''Ann'', registered_courses = {|''CS101''|}\<rparr>"
    by (simp add: demo_enrolled_eq)
  have c: "courses ?s' ''CS101''
       = Some \<lparr>course_id = ''CS101'', name = ''Programming'', instructor = ''Smith'',
               enrolled_students = {|''S1''|}, max_students = 1,
               days = [], time = [], location = []\<rparr>"
    by (simp add: demo_enrolled_eq)
  from bidirectional_consistency [OF demo_registry_reachable demo_step st c]
  have "''CS101'' |\<in>| {|''CS101''|} \<longleftrightarrow> ''S1'' |\<in>| {|''S1''|}" by simp
  with demo_registry_reachable st c show ?thesis by blast
qed

text \<open>
  Claim C2 (capacity). In every registry reachable from the empty one, and in the registry
  any one of the four operations leaves behind, the number of students enrolled in a
  course is at most its \<open>max_students\<close>.
\<close>

theorem capacity_invariant:
  assumes "reachable s"
    and "s' = s \<or> s' = snd (register_student s sid nm)
       \<or> s' = snd (add_course s cid cnm instr maxv)
       \<or> s' = snd (enroll_student s sid cid) \<or> s' = snd (drop_course s sid cid)"
    and "courses s' k = Some c"
  shows "int (fcard (enrolled_students c)) \<le> max_students c"
  using reachable_inv [OF reachable_after [OF assms(1,2)]] assms(3) by (rule inv_capacity)

theorem capacity_invariant_witness:
  "reachable demo_registry
   \<and> courses (snd (enroll_student demo_registry ''S1'' ''CS101'')) ''CS101''
       = Some \<lparr>course_id = ''CS101'', name = ''Programming'', instructor = ''Smith'',
               enrolled_students = {|''S1''|}, max_students = 1,
               days = [], time = [], location = []\<rparr>
   \<and> int (fcard {|''S1''|}) \<le> 1"
proof -
  let ?s' = "snd (enroll_student demo_registry ''S1'' ''CS101'')"
  have c: "courses ?s' ''CS101''
       = Some \<lparr>course_id = ''CS101'', name = ''Programming'', instructor = ''Smith'',
               enrolled_students = {|''S1''|}, max_students = 1,
               days = [], time = [], location = []\<rparr>"
    by (simp add: demo_enrolled_eq)
  from capacity_invariant [OF demo_registry_reachable demo_step c]
  have "int (fcard {|''S1''|}) \<le> 1" by simp
  with demo_registry_reachable c show ?thesis by blast
qed

text \<open>
  Claim C6 (round trip). In a reachable registry where \<open>enroll_student\<close> succeeds for a
  student and a course, \<open>drop_course\<close> for the same pair, called right after, succeeds
  and gives back the registry as it was before the enrollment: the student's registered
  courses and the course's enrolled students have their earlier contents, and nothing
  else has changed.
\<close>

theorem enroll_drop_round_trip:
  assumes "reachable s" and "fst (fst (enroll_student s sid cid))"
  shows "fst (fst (drop_course (snd (enroll_student s sid cid)) sid cid))
       \<and> snd (drop_course (snd (enroll_student s sid cid)) sid cid) = s"
proof -
  have inv: "registry_inv s" using assms(1) by (rule reachable_inv)
  from assms(2) obtain st crs where st: "students s sid = Some st" and crs: "courses s cid = Some crs"
    and new: "cid |\<notin>| registered_courses st"
    and post: "snd (enroll_student s sid cid) =
            s\<lparr>students := (students s)(sid \<mapsto> st\<lparr>registered_courses := finsert cid (registered_courses st)\<rparr>),
              courses := (courses s)(cid \<mapsto> crs\<lparr>enrolled_students := finsert sid (enrolled_students crs)\<rparr>)\<rparr>"
    by (auto elim!: enroll_student_success)
  have absent: "sid |\<notin>| enrolled_students crs"
    using inv_link [OF inv st crs] new by simp
  have s1: "(students s)(sid \<mapsto> st) = students s" and c1: "(courses s)(cid \<mapsto> crs) = courses s"
    using st crs by (auto simp: fun_upd_idem_iff)
  have r1: "finsert cid (registered_courses st) |-| {|cid|} = registered_courses st"
    using new by auto
  have r2: "finsert sid (enrolled_students crs) |-| {|sid|} = enrolled_students crs"
    using absent by auto
  show ?thesis
    unfolding post
    by (simp add: drop_course_def remove_course_student_def remove_student_def r1 r2 s1 c1)
qed

theorem enroll_drop_round_trip_witness:
  "reachable demo_registry \<and> fst (fst (enroll_student demo_registry ''S1'' ''CS101''))
   \<and> fst (fst (drop_course (snd (enroll_student demo_registry ''S1'' ''CS101'')) ''S1'' ''CS101''))
   \<and> snd (drop_course (snd (enroll_student demo_registry ''S1'' ''CS101'')) ''S1'' ''CS101'') = demo_registry"
proof -
  have ok: "fst (fst (enroll_student demo_registry ''S1'' ''CS101''))"
    by (simp add: demo_enrolled_eq)
  from enroll_drop_round_trip [OF demo_registry_reachable ok] demo_registry_reachable ok
  show ?thesis by blast
qed

section \<open>The order of the checks in enroll\_student\<close>

lemma enroll_student_no_student:
  "students s sid = None \<Longrightarrow> enroll_student s sid cid = ((False, StudentNotFound sid), s)"
  by (simp add: enroll_student_def)

lemma enroll_student_no_course:
  "students s sid = Some st \<Longrightarrow> courses s cid = None \<Longrightarrow>
     enroll_student s sid cid = ((False, CourseNotFound cid), s)"
  by (simp add: enroll_student_def)

lemma enroll_student_already:
  "students s sid = Some st \<Longrightarrow> courses s cid = Some crs \<Longrightarrow> cid |\<in>| registered_courses st \<Longrightarrow>
     enroll_student s sid cid = ((False, AlreadyEnrolled (course.name crs)), s)"
  by (simp add: enroll_student_def)

lemma enroll_student_full:
  "students s sid = Some st \<Longrightarrow> courses s cid = Some crs \<Longrightarrow> cid |\<notin>| registered_courses st \<Longrightarrow>
     is_full crs \<Longrightarrow> enroll_student s sid cid = ((False, CourseFull (course.name crs)), s)"
  by (simp add: enroll_student_def)

lemma conflicts_with_enrolled_iff:
  "conflicts_with_enrolled s st crs \<longleftrightarrow>
     (\<exists>ecid ec. ecid |\<in>| registered_courses st \<and> courses s ecid = Some ec
                \<and> has_schedule_conflict crs ec)"
  by (auto simp: conflicts_with_enrolled_def split: option.splits)

lemma enroll_student_conflict:
  "students s sid = Some st \<Longrightarrow> courses s cid = Some crs \<Longrightarrow> cid |\<notin>| registered_courses st \<Longrightarrow>
     \<not> is_full crs \<Longrightarrow> ecid |\<in>| registered_courses st \<Longrightarrow> courses s ecid = Some ec \<Longrightarrow>
     has_schedule_conflict crs ec \<Longrightarrow>
     enroll_student s sid cid = ((False, ScheduleConflict (course.name crs) (days crs) (time crs)), s)"
  using conflicts_with_enrolled_iff [of s st crs] by (auto simp: enroll_student_def)

lemma enroll_student_ok:
  "students s sid = Some st \<Longrightarrow> courses s cid = Some crs \<Longrightarrow> cid |\<notin>| registered_courses st \<Longrightarrow>
     \<not> is_full crs \<Longrightarrow>
     \<not> (\<exists>ecid ec. ecid |\<in>| registered_courses st \<and> courses s ecid = Some ec
                \<and> has_schedule_conflict crs ec) \<Longrightarrow>
     enroll_student s sid cid =
       ((True, Enrolled (student.name st) (course.name crs)),
        s\<lparr>students := (students s)(sid \<mapsto> st\<lparr>registered_courses := finsert cid (registered_courses st)\<rparr>),
          courses := (courses s)(cid \<mapsto> crs\<lparr>enrolled_students := finsert sid (enrolled_students crs)\<rparr>)\<rparr>)"
  using conflicts_with_enrolled_iff [of s st crs]
  by (simp add: enroll_student_def add_course_student_def add_student_def is_full_def)

lemma enroll_student_twice:
  assumes "fst (fst (enroll_student s sid cid))" and "courses s cid = Some crs"
  shows "enroll_student (snd (enroll_student s sid cid)) sid cid =
           ((False, AlreadyEnrolled (course.name crs)), snd (enroll_student s sid cid))"
proof -
  from assms(1) obtain st crs' where "courses s cid = Some crs'"
    and post: "snd (enroll_student s sid cid) =
            s\<lparr>students := (students s)(sid \<mapsto> st\<lparr>registered_courses := finsert cid (registered_courses st)\<rparr>),
              courses := (courses s)(cid \<mapsto> crs'\<lparr>enrolled_students := finsert sid (enrolled_students crs')\<rparr>)\<rparr>"
    by (auto elim!: enroll_student_success)
  with assms(2) have "crs' = crs" by simp
  with post show ?thesis
    by (simp add: enroll_student_def)
qed

lemma loaded_simps:
  "students loaded ''S1'' = Some ann" "students loaded ''S2'' = Some (Student ''S2'' ''Bob'')"
  "students loaded ''S3'' = None"
  "courses loaded ''CS101'' = Some cs101" "courses loaded ''MATH201'' = Some math201"
  "courses loaded ''CS999'' = None"
  by (simp_all add: loaded_def)

lemma cs101_math201_conflict: "has_schedule_conflict math201 cs101"
  by (simp add: has_schedule_conflict_def has_common_days_def times_overlap_def
        cs101_def math201_def parse_defs)

text \<open>
  Claim C3 (validation order). \<open>enroll_student\<close> answers with the first check that
  fails, in this order: the student is unknown; the course is unknown; the student is
  already enrolled in the course; the course is full; a course the student is enrolled
  in conflicts with the target. When all five checks pass it adds the course id to the
  student and the student id to the course. Whenever it fails the registry is returned
  unchanged, and enrolling again right after a success fails with the already-enrolled
  message and changes nothing.
\<close>

theorem enroll_student_validation_order:
  "(students s sid = None \<longrightarrow>
      enroll_student s sid cid = ((False, StudentNotFound sid), s))
 \<and> (students s sid = Some st \<and> courses s cid = None \<longrightarrow>
      enroll_student s sid cid = ((False, CourseNotFound cid), s))
 \<and> (students s sid = Some st \<and> courses s cid = Some crs \<and> cid |\<in>| registered_courses st \<longrightarrow>
      enroll_student s sid cid = ((False, AlreadyEnrolled (course.name crs)), s))
 \<and> (students s sid = Some st \<and> courses s cid = Some crs \<and> cid |\<notin>| registered_courses st
      \<and> is_full crs \<longrightarrow>
      enroll_student s sid cid = ((False, CourseFull (course.name crs)), s))
 \<and> (students s sid = Some st \<and> courses s cid = Some crs \<and> cid |\<notin>| registered_courses st
      \<and> \<not> is_full crs \<and> ecid |\<in>| registered_courses st \<and> courses s ecid = Some ec
      \<and> has_schedule_conflict crs ec \<longrightarrow>
      enroll_student s sid cid =
        ((False, ScheduleConflict (course.name crs) (days crs) (time crs)), s))
 \<and> (students s sid = Some st \<and> courses s cid = Some crs \<and> cid |\<notin>| registered_courses st
      \<and> \<not> is_full crs
      \<and> \<not> (\<exists>ecid ec. ecid |\<in>| registered_courses st \<and> courses s ecid = Some ec
                      \<and> has_schedule_conflict crs ec) \<longrightarrow>
      enroll_student s sid cid =
        ((True, Enrolled (student.name st) (course.name crs)),
         s\<lparr>students := (students s)(sid \<mapsto> st\<lparr>registered_courses := finsert cid (registered_courses st)\<rparr>),
           courses := (courses s)(cid \<mapsto> crs\<lparr>enrolled_students := finsert sid (enrolled_students crs)\<rparr>)\<rparr>))
 \<and> (\<not> fst (fst (enroll_student s sid cid)) \<longrightarrow> snd (enroll_student s sid cid) = s)
 \<and> (fst (fst (enroll_student s sid cid)) \<and> courses s cid = Some crs \<longrightarrow>
      enroll_student (snd (enroll_student s sid cid)) sid cid =
        ((False, AlreadyEnrolled (course.name crs)), snd (enroll_student s sid cid)))"
  using enroll_student_no_student [of s sid cid] enroll_student_no_course [of s sid st cid]
    enroll_student_already [of s sid st cid crs] enroll_student_full [of s sid st cid crs]
    enroll_student_conflict [of s sid st cid crs ecid ec] enroll_student_ok [of s sid st cid crs]
    enroll_student_failure [of s sid cid] enroll_student_twice [of s sid cid crs]
  by blast

theorem enroll_student_validation_order_witness:
  "enroll_student loaded ''S3'' ''CS101'' = ((False, StudentNotFound ''S3''), loaded)
 \<and> enroll_student loaded ''S1'' ''CS999'' = ((False, CourseNotFound ''CS999''), loaded)
 \<and> enroll_student loaded ''S1'' ''CS101'' = ((False, AlreadyEnrolled ''Programming''), loaded)
 \<and> enroll_student loaded ''S2'' ''CS101'' = ((False, CourseFull ''Programming''), loaded)
 \<and> enroll_student loaded ''S1'' ''MATH201'' =
      ((False, ScheduleConflict ''Calculus'' ''MW'' ''10:00-11:00''), loaded)
 \<and> fst (fst (enroll_student loaded ''S2'' ''MATH201''))
 \<and> enroll_student (snd (enroll_student loaded ''S2'' ''MATH201'')) ''S2'' ''MATH201'' =
      ((False, AlreadyEnrolled ''Calculus''), snd (enroll_student loaded ''S2'' ''MATH201''))"
proof -
  have full: "is_full cs101" and room: "\<not> is_full math201"
    by (simp_all add: is_full_def cs101_def math201_def fcard_finsert_if fcard_fempty)
  have in1: "''CS101'' |\<in>| registered_courses ann" and out1: "''MATH201'' |\<notin>| registered_courses ann"
    by (simp_all add: ann_def)
  have out2: "''CS101'' |\<notin>| registered_courses (Student ''S2'' ''Bob'')"
    "''MATH201'' |\<notin>| registered_courses (Student ''S2'' ''Bob'')"
    "\<not> (\<exists>ecid ec. ecid |\<in>| registered_courses (Student ''S2'' ''Bob'') \<and> courses loaded ecid = Some ec
                      \<and> has_schedule_conflict math201 ec)"
    by (simp_all add: Student_def)
  have nm: "course.name cs101 = ''Programming''" "course.name math201 = ''Calculus''"
    "days math201 = ''MW''" "time math201 = ''10:00-11:00''"
    by (simp_all add: cs101_def math201_def)
  have a: "enroll_student loaded ''S3'' ''CS101'' = ((False, StudentNotFound ''S3''), loaded)"
    using enroll_student_validation_order
            [where s = loaded and sid = "''S3''" and cid = "''CS101''"] loaded_simps
    by blast
  have b: "enroll_student loaded ''S1'' ''CS999'' = ((False, CourseNotFound ''CS999''), loaded)"
    using enroll_student_validation_order
            [where s = loaded and sid = "''S1''" and st = ann and cid = "''CS999''"] loaded_simps
    by blast
  have c: "enroll_student loaded ''S1'' ''CS101'' = ((False, AlreadyEnrolled ''Programming''), loaded)"
    using enroll_student_validation_order
            [where s = loaded and sid = "''S1''" and st = ann and cid = "''CS101''" and crs = cs101]
      loaded_simps in1 nm
    by metis
  have d: "enroll_student loaded ''S2'' ''CS101'' = ((False, CourseFull ''Programming''), loaded)"
    using enroll_student_validation_order
            [where s = loaded and sid = "''S2''" and st = "Student ''S2'' ''Bob''"
               and cid = "''CS101''" and crs = cs101]
      loaded_simps out2 full nm
    by metis
  have e: "enroll_student loaded ''S1'' ''MATH201'' =
      ((False, ScheduleConflict ''Calculus'' ''MW'' ''10:00-11:00''), loaded)"
    using enroll_student_validation_order
            [where s = loaded and sid = "''S1''" and st = ann and cid = "''MATH201''"
               and crs = math201 and ecid = "''CS101''" and ec = cs101]
      loaded_simps out1 in1 room cs101_math201_conflict nm
    by metis
  have f: "fst (fst (enroll_student loaded ''S2'' ''MATH201''))"
    using enroll_student_validation_order
            [where s = loaded and sid = "''S2''" and st = "Student ''S2'' ''Bob''"
               and cid = "''MATH201''" and crs = math201]
      loaded_simps out2 room
    by simp
  have g: "enroll_student (snd (enroll_student loaded ''S2'' ''MATH201'')) ''S2'' ''MATH201'' =
      ((False, AlreadyEnrolled ''Calculus''), snd (enroll_student loaded ''S2'' ''MATH201''))"
    using enroll_student_validation_order
            [where s = loaded and sid = "''S2''" and st = "Student ''S2'' ''Bob''"
               and cid = "''MATH201''" and crs = math201]
      loaded_simps f nm
    by metis
  from a b c d e f g show ?thesis by blast
qed

section \<open>Schedule conflicts\<close>

lemma parse_time_range_empty: "parse_time_range [] = Inl ValueError"
  by (simp add: parse_time_range_def)

lemma parse_time_range_nonempty: "parse_time_range t = Inr p \<Longrightarrow> t \<noteq> []"
  using parse_time_range_empty by auto

text \<open>
  Claim C4 (half-open overlap). For two courses whose day strings share a character and
  whose time strings parse to the minute ranges \<open>(start1, end1)\<close> and
  \<open>(start2, end2)\<close>, \<open>has_schedule_conflict\<close> is true exactly when
  \<open>start1 < end2\<close> and \<open>start2 < end1\<close>. A course that ends when the other starts
  does not conflict with it: 9:00-10:15 against 10:15-11:30 on shared days.
\<close>

theorem half_open_overlap:
  assumes "set (days a) \<inter> set (days b) \<noteq> {}"
    and "parse_time_range (time a) = Inr (start1, end1)"
    and "parse_time_range (time b) = Inr (start2, end2)"
  shows "has_schedule_conflict a b \<longleftrightarrow> start1 < end2 \<and> start2 < end1"
proof -
  from assms(1) have "days a \<noteq> []" and "days b \<noteq> []" by auto
  moreover have "time a \<noteq> []" and "time b \<noteq> []"
    using assms(2,3) by (auto dest: parse_time_range_nonempty)
  moreover have "has_common_days a (days b)"
    using assms(1) by (simp add: has_common_days_def card_gt_0_iff)
  ultimately show ?thesis
    using assms(2,3) by (simp add: has_schedule_conflict_def times_overlap_def)
qed

theorem half_open_overlap_witness:
  "set (days (Course ''CS101'' ''Programming'' ''Smith'' 30 ''MWF'' ''9:00-10:15'' ''E201''))
     \<inter> set (days (Course ''MATH201'' ''Calculus'' ''Williams'' 30 ''MW'' ''10:15-11:30'' ''E202'')) \<noteq> {}
   \<and> parse_time_range (time (Course ''CS101'' ''Programming'' ''Smith'' 30 ''MWF'' ''9:00-10:15'' ''E201''))
       = Inr (540, 615)
   \<and> parse_time_range (time (Course ''MATH201'' ''Calculus'' ''Williams'' 30 ''MW'' ''10:15-11:30'' ''E202''))
       = Inr (615, 690)
   \<and> \<not> has_schedule_conflict
         (Course ''CS101'' ''Programming'' ''Smith'' 30 ''MWF'' ''9:00-10:15'' ''E201'')
         (Course ''MATH201'' ''Calculus'' ''Williams'' 30 ''MW'' ''10:15-11:30'' ''E202'')"
proof -
  let ?a = "Course ''CS101'' ''Programming'' ''Smith'' 30 ''MWF'' ''9:00-10:15'' ''E201''"
  let ?b = "Course ''MATH201'' ''Calculus'' ''Williams'' 30 ''MW'' ''10:15-11:30'' ''E202''"
  have d: "set (days ?a) \<inter> set (days ?b) \<noteq> {}" by (simp add: Course_def)
  have p1: "parse_time_range (time ?a) = Inr (540, 615)" by (simp add: Course_def parse_defs)
  have p2: "parse_time_range (time ?b) = Inr (615, 690)" by (simp add: Course_def parse_defs)
  from half_open_overlap [OF d p1 p2] have "\<not> has_schedule_conflict ?a ?b" by simp
  with d p1 p2 show ?thesis by blast
qed

text \<open>
  Claim C5 (Thursday as a unit). The claim is that a course meeting on \<open>Th\<close> and a
  course meeting on \<open>T\<close> share no day, so that they never conflict.
  \<open>_has_common_days\<close> intersects the characters of the two day strings, and \<open>Th\<close>
  and \<open>T\<close> share the character \<open>T\<close>: with overlapping times the Thursday course and
  the Tuesday course are reported in conflict.
\<close>

theorem thursday_tuesday_conflict:
  "has_schedule_conflict
     (Course ''CS301'' ''Database Systems'' ''Garcia'' 25 ''Th'' ''9:00-10:15'' ''E201'')
     (Course ''PHY101'' ''Physics I'' ''Davis'' 30 ''T'' ''9:00-10:15'' ''S110'') = True"
  by (simp add: has_schedule_conflict_def has_common_days_def times_overlap_def Course_def parse_defs)

text \<open>
  Claim C7 (fail-open parsing). When parsing the time string of either course raises,
  \<open>has_schedule_conflict\<close> returns false: the handler of \<open>_times_overlap\<close> consumes
  the exception, and the result is a plain boolean. This holds whatever the day strings
  are, so in particular for courses with a schedule and a shared day.
\<close>

theorem fail_open_parsing:
  assumes "parse_time_range (time a) = Inl e \<or> parse_time_range (time b) = Inl e"
  shows "has_schedule_conflict a b = False"
  using assms by (auto simp: has_schedule_conflict_def times_overlap_def split: sum.splits)

theorem fail_open_parsing_witness:
  "days eng101 \<noteq> [] \<and> time eng101 \<noteq> [] \<and> days (eng101\<lparr>time := ''13:00-14:15''\<rparr>) \<noteq> []
   \<and> time (eng101\<lparr>time := ''13:00-14:15''\<rparr>) \<noteq> []
   \<and> set (days eng101) \<inter> set (days (eng101\<lparr>time := ''13:00-14:15''\<rparr>)) \<noteq> {}
   \<and> parse_time_range (time eng101) = Inl ValueError
   \<and> has_schedule_conflict eng101 (eng101\<lparr>time := ''13:00-14:15''\<rparr>) = False
   \<and> has_schedule_conflict (eng101\<lparr>time := ''13:00-14:15''\<rparr>) eng101 = False"
proof -
  have bad: "parse_time_range (time eng101) = Inl ValueError"
    by (simp add: eng101_def parse_defs)
  have sched: "days eng101 \<noteq> [] \<and> time eng101 \<noteq> [] \<and> days (eng101\<lparr>time := ''13:00-14:15''\<rparr>) \<noteq> []
   \<and> time (eng101\<lparr>time := ''13:00-14:15''\<rparr>) \<noteq> []
   \<and> set (days eng101) \<inter> set (days (eng101\<lparr>time := ''13:00-14:15''\<rparr>)) \<noteq> {}"
    by (simp add: eng101_def)
  have "has_schedule_conflict eng101 (eng101\<lparr>time := ''13:00-14:15''\<rparr>) = False"
    using fail_open_parsing [of eng101 ValueError "eng101\<lparr>time := ''13:00-14:15''\<rparr>"] bad by blast
  moreover have "has_schedule_conflict (eng101\<lparr>time := ''13:00-14:15''\<rparr>) eng101 = False"
    using fail_open_parsing [of "eng101\<lparr>time := ''13:00-14:15''\<rparr>" ValueError eng101] bad by blast
  ultimately show ?thesis using bad sched by blast
qed

text \<open>
  Claim C10 (symmetry). \<open>a.has_schedule_conflict(b)\<close> and
  \<open>b.has_schedule_conflict(a)\<close> are equal for all courses.
\<close>

theorem schedule_conflict_symmetric:
  "has_schedule_conflict a b = has_schedule_conflict b a"
proof -
  have "times_overlap t1 t2 = times_overlap t2 t1" for t1 t2
    by (auto simp: times_overlap_def split: sum.splits)
  moreover have "has_common_days a (days b) = has_common_days b (days a)"
    by (simp add: has_common_days_def Int_commute)
  ultimately show ?thesis
    by (auto simp: has_schedule_conflict_def)
qed

section \<open>Course.add\_student and add\_course\<close>

text \<open>
  Claim C8 (adding an enrolled student again), as the code has it. For a course that
  already holds the student id, \<open>add_student\<close> leaves the course unchanged; it returns
  true when the course is not full and false when it is full, because the capacity
  check comes before the insertion.
\<close>

theorem add_student_readd:
  assumes "sid |\<in>| enrolled_students c"
  shows "snd (add_student c sid) = c \<and> fst (add_student c sid) = (\<not> is_full c)"
  using assms by (simp add: add_student_def is_full_def finsert_absorb)

theorem add_student_readd_witness:
  "''S1'' |\<in>| enrolled_students eng101 \<and> \<not> is_full eng101
   \<and> add_student eng101 ''S1'' = (True, eng101)"
proof -
  have m: "''S1'' |\<in>| enrolled_students eng101" by (simp add: eng101_def)
  have r: "\<not> is_full eng101" by (simp add: eng101_def is_full_def fcard_finsert_if fcard_fempty)
  from add_student_readd [OF m] r have "add_student eng101 ''S1'' = (True, eng101)"
    by (simp add: prod_eq_iff)
  with m r show ?thesis by blast
qed

text \<open>
  The claim as written, that the call returns true for every course holding the id, fails
  on a full course: CS101 has one seat, Ann holds it, and adding her again returns false.
\<close>

theorem add_student_full_counterexample:
  "''S1'' |\<in>| enrolled_students cs101 \<and> add_student cs101 ''S1'' = (False, cs101)"
  by (simp add: add_student_def cs101_def fcard_finsert_if fcard_fempty)

lemma int_of_digits_error: "int_of_digits t = Inl e \<Longrightarrow> e = ValueError"
  by (auto simp: int_of_digits_def Let_def split: if_splits)

lemma int_of_str_error: "int_of_str t = Inl e \<Longrightarrow> e = ValueError"
  by (auto simp: int_of_str_def split: list.splits if_splits sum.splits
           dest: int_of_digits_error)

lemma py_int_error:
  "maxv = PyInt i \<or> maxv = PyStr t \<Longrightarrow> py_int maxv = Inl e \<Longrightarrow> e = ValueError"
  by (auto dest: int_of_str_error)

text \<open>
  Claim C9 (invalid capacity). For a new course id and non-empty id, name and instructor,
  and for \<open>max_students\<close> an integer, as annotated, or a string, \<open>add_course\<close>
  fails and returns the registry unchanged, so that no course is created, when
  \<open>int(max_students)\<close> cannot convert the value (the message asks for a valid number)
  and when the converted value is zero or negative (the message asks for a positive
  number).
\<close>

theorem add_course_invalid_max:
  assumes "cid \<noteq> []" and "nm \<noteq> []" and "instr \<noteq> []" and "courses s cid = None"
    and "maxv = PyInt i \<or> maxv = PyStr t"
  shows "(py_int maxv = Inl e \<longrightarrow>
            add_course s cid nm instr maxv = (Inr (False, MaxNotValid), s))
       \<and> (py_int maxv = Inr n \<and> n \<le> 0 \<longrightarrow>
            add_course s cid nm instr maxv = (Inr (False, MaxNotPositive), s))"
proof (intro conjI impI)
  assume bad: "py_int maxv = Inl e"
  with assms(5) have "e = ValueError" by (rule py_int_error)
  with bad assms(1-4) show "add_course s cid nm instr maxv = (Inr (False, MaxNotValid), s)"
    by (simp add: add_course_def dom_def)
next
  assume "py_int maxv = Inr n \<and> n \<le> 0"
  with assms(1-4) show "add_course s cid nm instr maxv = (Inr (False, MaxNotPositive), s)"
    by (simp add: add_course_def dom_def)
qed

theorem add_course_invalid_max_witness:
  "courses demo_registry ''MATH201'' = None
   \<and> py_int (PyStr ''thirty'') = Inl ValueError \<and> py_int (PyInt 0) = Inr 0 \<and> py_int (PyStr ''-5'') = Inr (- 5)
   \<and> add_course demo_registry ''MATH201'' ''Calculus'' ''Williams'' (PyStr ''thirty'')
       = (Inr (False, MaxNotValid), demo_registry)
   \<and> add_course demo_registry ''MATH201'' ''Calculus'' ''Williams'' (PyInt 0)
       = (Inr (False, MaxNotPositive), demo_registry)
   \<and> add_course demo_registry ''MATH201'' ''Calculus'' ''Williams'' (PyStr ''-5'')
       = (Inr (False, MaxNotPositive), demo_registry)
   \<and> courses (snd (add_course demo_registry ''MATH201'' ''Calculus'' ''Williams'' (PyStr ''thirty'')))
        ''MATH201'' = None"
proof -
  have fresh: "courses demo_registry ''MATH201'' = None" by (simp add: demo_registry_eq)
  have p1: "py_int (PyStr ''thirty'') = Inl ValueError"
    and p2: "py_int (PyInt 0) = Inr 0" and p3: "py_int (PyStr ''-5'') = Inr (- 5)"
    by (simp_all add: parse_defs)
  have ne: "''MATH201'' \<noteq> []" "''Calculus'' \<noteq> []" "''Williams'' \<noteq> []" by simp_all
  have d1: "PyStr ''thirty'' = PyInt 0 \<or> PyStr ''thirty'' = PyStr ''thirty''"
    and d2: "PyInt 0 = PyInt 0 \<or> PyInt 0 = PyStr []"
    and d3: "PyStr ''-5'' = PyInt 0 \<or> PyStr ''-5'' = PyStr ''-5''"
    by simp_all
  have a: "add_course demo_registry ''MATH201'' ''Calculus'' ''Williams'' (PyStr ''thirty'')
       = (Inr (False, MaxNotValid), demo_registry)"
    using add_course_invalid_max [OF ne fresh d1, of ValueError] p1 by blast
  have b: "add_course demo_registry ''MATH201'' ''Calculus'' ''Williams'' (PyInt 0)
       = (Inr (False, MaxNotPositive), demo_registry)"
    using add_course_invalid_max [OF ne fresh d2, of _ 0] p2 by simp
  have c: "add_course demo_registry ''MATH201'' ''Calculus'' ''Williams'' (PyStr ''-5'')
       = (Inr (False, MaxNotPositive), demo_registry)"
    using add_course_invalid_max [OF ne fresh d3, of _ "- 5"] p3 by simp
  from a fresh have e: "courses (snd (add_course demo_registry ''MATH201'' ''Calculus'' ''Williams''
        (PyStr ''thirty''))) ''MATH201'' = None"
    by simp
  from fresh p1 p2 p3 a b c e show ?thesis by blast
qed

end
